theory Spec2Isabelle
  imports Complex_Main "HOL-Library.AList"
begin

section \<open>Values, trees and errors\<close>

text \<open>
  The loss values of \<^verbatim>\<open>train_stage3.py\<close> are torch tensors holding one float. A float
  is modelled by its IEEE special values and, when finite, by the real number it stands
  for. The operations \<open>tadd\<close>, \<open>tdiv\<close> and \<open>tscale\<close> of this section are exact on
  finite values: they model division by zero and the propagation of NaN and of the
  infinities, not rounding and overflow. The float32 addition that rounds, \<open>fadd32\<close>,
  is defined further down and used where the rounding decides a property.
\<close>

datatype tval = Fin real | PInf | NInf | NaN

text \<open>\<^verbatim>\<open>a + b\<close> on tensors.\<close>

fun tadd :: "tval \<Rightarrow> tval \<Rightarrow> tval" where
  "tadd NaN _ = NaN"
| "tadd _ NaN = NaN"
| "tadd PInf NInf = NaN"
| "tadd NInf PInf = NaN"
| "tadd PInf _ = PInf"
| "tadd _ PInf = PInf"
| "tadd NInf _ = NInf"
| "tadd _ NInf = NInf"
| "tadd (Fin a) (Fin b) = Fin (a + b)"

text \<open>
  \<^verbatim>\<open>t / cnt\<close> for a tensor \<^verbatim>\<open>t\<close> and a Python int \<^verbatim>\<open>cnt \<ge> 0\<close>: torch converts the
  int to a float and divides; nothing is raised when \<^verbatim>\<open>cnt\<close> is 0.
\<close>

fun tdiv :: "tval \<Rightarrow> nat \<Rightarrow> tval" where
  "tdiv NaN cnt = NaN"
| "tdiv PInf cnt = PInf"
| "tdiv NInf cnt = NInf"
| "tdiv (Fin x) cnt =
     (if cnt = 0 then (if x = 0 then NaN else if 0 < x then PInf else NInf)
      else Fin (x / real cnt))"

text \<open>\<^verbatim>\<open>t *= w\<close> for a tensor \<^verbatim>\<open>t\<close> and a finite configured weight \<^verbatim>\<open>w\<close>.\<close>

fun tscale :: "real \<Rightarrow> tval \<Rightarrow> tval" where
  "tscale w NaN = NaN"
| "tscale w PInf = (if w = 0 then NaN else if 0 < w then PInf else NInf)"
| "tscale w NInf = (if w = 0 then NaN else if 0 < w then NInf else PInf)"
| "tscale w (Fin x) = Fin (w * x)"

text \<open>
  A tree node carries its normalised point cloud (\<^verbatim>\<open>norm_geo\<close>) and its children; an
  object of a batch has a root node. The interpreter's resource limits (the recursion
  ceiling, memory) are outside the model: a tree is a finite value of the datatype.
\<close>

datatype 'g node = Node (norm_geo: 'g) (children: "'g node list")

datatype 'g tree = Tree (root: "'g node")

datatype error =
    KeyError string
  | ValueError
  | IndexError
  | UnboundLocalError string
  | ZeroDivisionError
  | StopIteration
  | OSError string
  | SystemExit

type_synonym losses = "(string \<times> tval) list"

section \<open>The per-node loss aggregator\<close>

text \<open>
  A Python dict is an association list in insertion order. The loop of
  \<^verbatim>\<open>forward_one_node\<close>,
  \<^verbatim>\<open>for loss_name, loss in obj_losses.items(): losses[loss_name] = losses[loss_name] + loss\<close>,
  reads the slot first, so a name the accumulator does not hold raises KeyError.
\<close>

fun accumulate :: "losses \<Rightarrow> losses \<Rightarrow> error + losses" where
  "accumulate [] losses = Inr losses"
| "accumulate ((loss_name, loss) # obj_losses) losses =
     (case map_of losses loss_name of
        None \<Rightarrow> Inl (KeyError loss_name)
      | Some v \<Rightarrow> accumulate obj_losses (AList.update loss_name (tadd v loss) losses))"

definition forward_one_node ::
  "'g node \<Rightarrow> ('g \<Rightarrow> 'c) \<Rightarrow> ('c \<Rightarrow> 'g node \<Rightarrow> losses) \<Rightarrow> losses \<Rightarrow> error + losses" where
  "forward_one_node obj_node pointencoder decoder losses =
     (let root_code = pointencoder (norm_geo obj_node);
          obj_losses = decoder root_code obj_node
      in accumulate obj_losses losses)"

text \<open>
  \<^verbatim>\<open>forward_one_obj\<close>: the node itself, then its children in order, threading the
  accumulator and the count. \<open>forward_children\<close> is the \<^verbatim>\<open>for child in obj_node.children\<close>
  loop.
\<close>

fun forward_one_obj ::
    "'g node \<Rightarrow> ('g \<Rightarrow> 'c) \<Rightarrow> ('c \<Rightarrow> 'g node \<Rightarrow> losses) \<Rightarrow> losses \<Rightarrow> nat \<Rightarrow> error + losses \<times> nat"
  and forward_children ::
    "'g node list \<Rightarrow> ('g \<Rightarrow> 'c) \<Rightarrow> ('c \<Rightarrow> 'g node \<Rightarrow> losses) \<Rightarrow> losses \<Rightarrow> nat \<Rightarrow> error + losses \<times> nat"
where
  "forward_one_obj (Node g cs) pointnet decoder losses cnt =
     (case forward_one_node (Node g cs) pointnet decoder losses of
        Inl e \<Rightarrow> Inl e
      | Inr losses' \<Rightarrow> forward_children cs pointnet decoder losses' (cnt + 1))"
| "forward_children [] pointnet decoder losses cnt = Inr (losses, cnt)"
| "forward_children (child # rest) pointnet decoder losses cnt =
     (case forward_one_obj child pointnet decoder losses cnt of
        Inl e \<Rightarrow> Inl e
      | Inr (losses', cnt') \<Rightarrow> forward_children rest pointnet decoder losses' cnt')"

text \<open>The number of nodes of a tree, counted without the aggregator.\<close>

fun node_count :: "'g node \<Rightarrow> nat" where
  "node_count (Node g cs) = 1 + sum_list (map node_count cs)"

section \<open>The batch forward pass\<close>

text \<open>The fields of the run configuration that \<^verbatim>\<open>train\<close> and \<^verbatim>\<open>forward\<close> read.\<close>

record conf =
  exp_name :: string
  log_path :: string
  model_path :: string
  lr :: real
  lr_decay_every :: int
  lr_decay_by :: real
  epochs :: int
  no_console_log :: bool
  no_tb_log :: bool
  console_log_interval :: int
  checkpoint_interval :: int
  loss_weight_latent :: real
  loss_weight_geo :: real
  loss_weight_center :: real
  loss_weight_scale :: real
  loss_weight_leaf :: real
  loss_weight_exists :: real
  loss_weight_semantic :: real
  loss_weight_edge_exists :: real
  loss_weight_sym :: real
  loss_weight_adj :: real

definition vocabulary :: "string list" where
  "vocabulary = [''latent'', ''geo'', ''center'', ''scale'', ''leaf'', ''exists'',
     ''semantic'', ''edge_exists'', ''sym'', ''adj'']"

text \<open>The dict literal of \<^verbatim>\<open>forward\<close>: ten slots of \<^verbatim>\<open>torch.zeros(1)\<close>.\<close>

definition init_losses :: losses where
  "init_losses = [(''latent'', Fin 0), (''geo'', Fin 0), (''center'', Fin 0),
     (''scale'', Fin 0), (''leaf'', Fin 0), (''exists'', Fin 0), (''semantic'', Fin 0),
     (''edge_exists'', Fin 0), (''sym'', Fin 0), (''adj'', Fin 0)]"

text \<open>\<^verbatim>\<open>batch[data_features.index('object')]\<close>.\<close>

fun index_of :: "string list \<Rightarrow> string \<Rightarrow> error + nat" where
  "index_of [] x = Inl ValueError"
| "index_of (y # ys) x =
     (if y = x then Inr 0
      else case index_of ys x of Inl e \<Rightarrow> Inl e | Inr i \<Rightarrow> Inr (i + 1))"

definition batch_objects :: "'o list list \<Rightarrow> string list \<Rightarrow> error + 'o list" where
  "batch_objects batch data_features =
     (case index_of data_features ''object'' of
        Inl e \<Rightarrow> Inl e
      | Inr i \<Rightarrow> if i < length batch then Inr (batch ! i) else Inl IndexError)"

text \<open>
  The loop over the objects of the batch. The structure encoder is called on every
  object and its result is bound to \<^verbatim>\<open>root_code\<close>, which nothing reads.
\<close>

fun forward_objects ::
  "'g tree list \<Rightarrow> ('g tree \<Rightarrow> 'z) \<Rightarrow> ('g \<Rightarrow> 'c) \<Rightarrow> ('c \<Rightarrow> 'g node \<Rightarrow> losses) \<Rightarrow>
     losses \<Rightarrow> nat \<Rightarrow> error + losses \<times> nat" where
  "forward_objects [] encode_structure point decoder losses cnt = Inr (losses, cnt)"
| "forward_objects (obj # objects) encode_structure point decoder losses cnt =
     (let root_code = encode_structure obj in
      case forward_one_obj (root obj) point decoder losses cnt of
        Inl e \<Rightarrow> Inl e
      | Inr (losses', cnt') \<Rightarrow>
          forward_objects objects encode_structure point decoder losses' cnt')"

text \<open>\<^verbatim>\<open>for loss_name in losses.keys(): losses[loss_name] = losses[loss_name] / cnt\<close>.\<close>

definition normalize_losses :: "losses \<Rightarrow> nat \<Rightarrow> losses" where
  "normalize_losses losses cnt = map (\<lambda>(loss_name, v). (loss_name, tdiv v cnt)) losses"

text \<open>
  The ten statements \<^verbatim>\<open>losses[name] *= conf.loss_weight_name\<close>, in the order of the
  source; each reads its slot and raises KeyError when it is missing.
\<close>

definition loss_weights :: "conf \<Rightarrow> (string \<times> real) list" where
  "loss_weights cf =
     [(''latent'', loss_weight_latent cf), (''geo'', loss_weight_geo cf),
      (''center'', loss_weight_center cf), (''scale'', loss_weight_scale cf),
      (''leaf'', loss_weight_leaf cf), (''exists'', loss_weight_exists cf),
      (''semantic'', loss_weight_semantic cf),
      (''edge_exists'', loss_weight_edge_exists cf),
      (''sym'', loss_weight_sym cf), (''adj'', loss_weight_adj cf)]"

fun weight_losses :: "(string \<times> real) list \<Rightarrow> losses \<Rightarrow> error + losses" where
  "weight_losses [] losses = Inr losses"
| "weight_losses ((loss_name, w) # ws) losses =
     (case map_of losses loss_name of
        None \<Rightarrow> Inl (KeyError loss_name)
      | Some v \<Rightarrow> weight_losses ws (AList.update loss_name (tscale w v) losses))"

text \<open>\<^verbatim>\<open>total_loss = 0; for loss in losses.values(): total_loss += loss\<close>.\<close>

definition total_of :: "losses \<Rightarrow> tval" where
  "total_of losses = foldl tadd (Fin 0) (map snd losses)"

text \<open>The accumulator after the division by the count (line 279 of the source).\<close>

definition forward_normalized ::
  "'g tree list list \<Rightarrow> string list \<Rightarrow> ('g \<Rightarrow> 'c) \<Rightarrow> ('g tree \<Rightarrow> 'z) \<Rightarrow>
     ('c \<Rightarrow> 'g node \<Rightarrow> losses) \<Rightarrow> error + losses" where
  "forward_normalized batch data_features point encoder decoder =
     (case batch_objects batch data_features of
        Inl e \<Rightarrow> Inl e
      | Inr objects \<Rightarrow>
          (case forward_objects objects encoder point decoder init_losses 0 of
             Inl e \<Rightarrow> Inl e
           | Inr (losses, cnt) \<Rightarrow> Inr (normalize_losses losses cnt)))"

text \<open>
  \<^verbatim>\<open>forward\<close> returns \<^verbatim>\<open>total_loss\<close>; the weighted per-term values are what it writes to
  the console, the log file and the tensorboard writer, so the model returns them beside
  the total. The formatting of the log lines is not modelled.
\<close>

definition forward ::
  "'g tree list list \<Rightarrow> string list \<Rightarrow> ('g \<Rightarrow> 'c) \<Rightarrow> ('g tree \<Rightarrow> 'z) \<Rightarrow>
     ('c \<Rightarrow> 'g node \<Rightarrow> losses) \<Rightarrow> conf \<Rightarrow> error + tval \<times> losses" where
  "forward batch data_features point encoder decoder cf =
     (case forward_normalized batch data_features point encoder decoder of
        Inl e \<Rightarrow> Inl e
      | Inr losses \<Rightarrow>
          (case weight_losses (loss_weights cf) losses of
             Inl e \<Rightarrow> Inl e
           | Inr losses' \<Rightarrow> Inr (total_of losses', losses')))"

section \<open>The training orchestrator\<close>

text \<open>
  \<^verbatim>\<open>train\<close> is modelled in its phases: the run directories (lines 56 to 69), the models,
  the optimizer and the schedule (lines 95 to 124), the epoch loop (lines 161 to 240) and
  the final checkpoint (lines 242 to 247). Calls into torch and into \<^verbatim>\<open>utils\<close> are
  recorded as events with their arguments; the log file, the seeding, the configuration
  snapshot and the loading of the stage-2 checkpoint are not modelled.
\<close>

datatype component = Encoder | Decoder | PointEncoder

subsection \<open>Run directories\<close>

text \<open>
  The file system is the operating system's: its state and the four functions of
  \<^verbatim>\<open>os\<close> and \<^verbatim>\<open>shutil\<close> that \<^verbatim>\<open>train\<close> calls are parameters. \<open>response\<close> is the line
  that \<^verbatim>\<open>input\<close> returns when it is called.
\<close>

datatype run_op = Prompt string | RmTree string | MakeDirs string

record 'fs os_ops =
  path_join :: "string \<Rightarrow> string \<Rightarrow> string"
  path_exists :: "'fs \<Rightarrow> string \<Rightarrow> bool"
  rmtree :: "'fs \<Rightarrow> string \<Rightarrow> error option \<times> 'fs"
  makedirs :: "'fs \<Rightarrow> string \<Rightarrow> error option \<times> 'fs"

definition remove_run_dir ::
  "'fs os_ops \<Rightarrow> string \<Rightarrow> 'fs \<Rightarrow> run_op list \<Rightarrow> error option \<times> 'fs \<times> run_op list" where
  "remove_run_dir os dir fs ops =
     (if path_exists os fs dir
      then (case rmtree os fs dir of (err, fs') \<Rightarrow> (err, fs', ops @ [RmTree dir]))
      else (None, fs, ops))"

definition create_run_dir ::
  "'fs os_ops \<Rightarrow> string \<Rightarrow> 'fs \<Rightarrow> run_op list \<Rightarrow> error option \<times> 'fs \<times> run_op list" where
  "create_run_dir os dir fs ops =
     (case makedirs os fs dir of (err, fs') \<Rightarrow> (err, fs', ops @ [MakeDirs dir]))"

definition prepare_run_dirs ::
  "'fs os_ops \<Rightarrow> conf \<Rightarrow> string \<Rightarrow> 'fs \<Rightarrow> error option \<times> 'fs \<times> run_op list" where
  "prepare_run_dirs os cf response fs =
     (let log_dir = path_join os (log_path cf) (exp_name cf);
          model_dir = path_join os (model_path cf) (exp_name cf);
          asked = (path_exists os fs log_dir \<or> path_exists os fs model_dir);
          ops = (if asked then [Prompt (exp_name cf)] else [])
      in if asked \<and> response \<noteq> ''y'' then (Some SystemExit, fs, ops)
         else
           (case remove_run_dir os log_dir fs ops of
              (Some e, fs1, ops1) \<Rightarrow> (Some e, fs1, ops1)
            | (None, fs1, ops1) \<Rightarrow>
                (case remove_run_dir os model_dir fs1 ops1 of
                   (Some e, fs2, ops2) \<Rightarrow> (Some e, fs2, ops2)
                 | (None, fs2, ops2) \<Rightarrow>
                     (case create_run_dir os model_dir fs2 ops2 of
                        (Some e, fs3, ops3) \<Rightarrow> (Some e, fs3, ops3)
                      | (None, fs3, ops3) \<Rightarrow> create_run_dir os log_dir fs3 ops3))))"

subsection \<open>Models, optimizer and schedule\<close>

text \<open>
  A torch module is its two flags: the mode (\<^verbatim>\<open>training\<close>) and whether its parameters
  take gradients. A freshly constructed module is in training mode and its parameters
  require gradients. An optimizer is the list of the components whose parameters it was
  given, and its learning rate.
\<close>

record module_flags =
  training :: bool
  requires_grad :: bool

record optimizer =
  opt_params :: "component list"
  opt_lr :: real

record scheduler =
  sched_optimizer :: optimizer
  sched_step_size :: int
  sched_gamma :: real

record trainer =
  flags :: "component \<Rightarrow> module_flags"
  point_opt :: optimizer
  point_scheduler :: scheduler

definition fresh_modules :: "component \<Rightarrow> module_flags" where
  "fresh_modules = (\<lambda>c. \<lparr>training = True, requires_grad = True\<rparr>)"

text \<open>\<^verbatim>\<open>m.eval()\<close> and \<^verbatim>\<open>for param in m.parameters(): param.requires_grad = False\<close>.\<close>

definition set_eval :: "component \<Rightarrow> (component \<Rightarrow> module_flags) \<Rightarrow> component \<Rightarrow> module_flags" where
  "set_eval c f = f(c := (f c)\<lparr>training := False\<rparr>)"

definition freeze :: "component \<Rightarrow> (component \<Rightarrow> module_flags) \<Rightarrow> component \<Rightarrow> module_flags" where
  "freeze c f = f(c := (f c)\<lparr>requires_grad := False\<rparr>)"

text \<open>
  Lines 110 to 124: the optimizer is \<^verbatim>\<open>torch.optim.Adam(encoder.parameters(), lr=conf.lr)\<close>
  and the schedule is \<^verbatim>\<open>StepLR(point_opt, step_size=conf.lr_decay_every, gamma=conf.lr_decay_by)\<close>.
\<close>

definition create_models :: "conf \<Rightarrow> trainer" where
  "create_models cf =
     (let f = freeze Decoder (set_eval Decoder (freeze Encoder (set_eval Encoder fresh_modules)));
          opt = \<lparr>opt_params = [Encoder], opt_lr = lr cf\<rparr>
      in \<lparr>flags = f, point_opt = opt,
          point_scheduler = \<lparr>sched_optimizer = opt, sched_step_size = lr_decay_every cf,
            sched_gamma = lr_decay_by cf\<rparr>\<rparr>)"

subsection \<open>The epoch loop\<close>

text \<open>
  \<open>Forward is_valdt batch_ind batch log_console\<close> is a call of \<^verbatim>\<open>forward\<close>;
  \<open>SaveCheckpoint models model_names epoch prepend_epoch optimizer_names\<close> is a call of
  \<^verbatim>\<open>utils.save_checkpoint\<close>, whose optimizer is always \<^verbatim>\<open>point_opt\<close>.
\<close>

datatype 'b event =
    Forward bool nat 'b bool
  | OptStep
  | SchedStep
  | ZeroGrad
  | Backward tval
  | SetEval component
  | SaveCheckpoint "component list" "string list" nat bool "string list"

text \<open>
  The local variables of \<^verbatim>\<open>train\<close> that the loop updates. \<open>trace\<close> holds the events of
  the current epoch. The fractions and \<^verbatim>\<open>valdt_step\<close> are Python floats; they are
  modelled as exact rationals.
\<close>

record 'b loop_state =
  trace :: "'b event list"
  last_checkpoint_step :: "int option"
  last_train_console_log_step :: "int option"
  last_valdt_console_log_step :: "rat option"
  train_fraction_done :: rat
  valdt_fraction_done :: rat
  valdt_batch_ind :: int

text \<open>Lines 204 to 215: the periodic checkpoint of the point encoder.\<close>

definition periodic_checkpoint :: "conf \<Rightarrow> nat \<Rightarrow> int \<Rightarrow> 'b loop_state \<Rightarrow> 'b loop_state" where
  "periodic_checkpoint cf epoch step st =
     (if (case last_checkpoint_step st of None \<Rightarrow> True
          | Some l \<Rightarrow> step - l \<ge> checkpoint_interval cf)
      then st\<lparr>trace := trace st @
                 [SaveCheckpoint [PointEncoder] [''pointencoder''] epoch True [''pointencoder'']],
              last_checkpoint_step := Some step\<rparr>
      else st)"

text \<open>
  Lines 177 to 215, one training batch. \<open>fwd\<close> is the forward pass on a batch and
  returns the total loss or the error raised. The arguments of the call of
  \<^verbatim>\<open>forward\<close> are evaluated first: \<^verbatim>\<open>train_writer\<close> is bound only when
  \<^verbatim>\<open>conf.no_tb_log\<close> is false.
\<close>

definition train_step ::
  "conf \<Rightarrow> ('b \<Rightarrow> error + tval) \<Rightarrow> nat \<Rightarrow> nat \<Rightarrow> nat \<Rightarrow> 'b \<Rightarrow> 'b loop_state \<Rightarrow>
     error option \<times> 'b loop_state" where
  "train_step cf fwd epoch train_num_batch train_batch_ind batch st =
     (if train_num_batch = 0 then (Some ZeroDivisionError, st)
      else
        let step = int epoch * int train_num_batch + int train_batch_ind;
            log_console = (\<not> no_console_log cf \<and>
              (case last_train_console_log_step st of None \<Rightarrow> True
               | Some l \<Rightarrow> step - l \<ge> console_log_interval cf));
            st1 = st\<lparr>train_fraction_done := of_nat (train_batch_ind + 1) / of_nat train_num_batch,
                     last_train_console_log_step :=
                       (if log_console then Some step else last_train_console_log_step st)\<rparr>
        in if no_tb_log cf then (Some (UnboundLocalError ''train_writer''), st1)
           else
             let st2 = st1\<lparr>trace := trace st1 @ [Forward False train_batch_ind batch log_console]\<rparr>
             in case fwd batch of
                  Inl e \<Rightarrow> (Some e, st2)
                | Inr total_loss \<Rightarrow>
                    (None, periodic_checkpoint cf epoch step
                       (st2\<lparr>trace := trace st2 @
                          [OptStep, SchedStep, ZeroGrad, Backward total_loss]\<rparr>)))"

text \<open>Lines 219 to 240, one validation batch, which the iterator yields with index \<open>idx\<close>.\<close>

definition valdt_step ::
  "conf \<Rightarrow> ('b \<Rightarrow> error + tval) \<Rightarrow> nat \<Rightarrow> nat \<Rightarrow> nat \<Rightarrow> nat \<Rightarrow> 'b \<Rightarrow> 'b loop_state \<Rightarrow>
     error option \<times> 'b loop_state" where
  "valdt_step cf fwd epoch train_num_batch valdt_num_batch idx batch st =
     (if valdt_num_batch = 0 then (Some ZeroDivisionError, st\<lparr>valdt_batch_ind := int idx\<rparr>)
      else
        let vf = of_nat (idx + 1) / of_nat valdt_num_batch;
            step = (of_nat epoch + vf) * of_nat train_num_batch - 1;
            log_console = (\<not> no_console_log cf \<and>
              (case last_valdt_console_log_step st of None \<Rightarrow> True
               | Some l \<Rightarrow> step - l \<ge> of_int (console_log_interval cf)));
            st1 = st\<lparr>valdt_batch_ind := int idx, valdt_fraction_done := vf,
                     last_valdt_console_log_step :=
                       (if log_console then Some step else last_valdt_console_log_step st),
                     trace := trace st @ [SetEval Encoder, SetEval Decoder, SetEval PointEncoder]\<rparr>
        in if no_tb_log cf then (Some (UnboundLocalError ''valdt_writer''), st1)
           else
             let st2 = st1\<lparr>trace := trace st1 @ [Forward True idx batch log_console]\<rparr>
             in case fwd batch of
                  Inl e \<Rightarrow> (Some e, st2)
                | Inr total_loss \<Rightarrow> (None, st2))"

text \<open>
  The \<^verbatim>\<open>while\<close> loop of line 218. \<^verbatim>\<open>valdt_batches\<close> is the iterator
  \<^verbatim>\<open>enumerate(valdt_dataloader, 0)\<close>: the index it yields next and the batches it has
  left; \<^verbatim>\<open>next\<close> on an exhausted iterator raises StopIteration. The loop returns the
  iterator beside the state.
\<close>

fun valdt_loop ::
  "conf \<Rightarrow> ('b \<Rightarrow> error + tval) \<Rightarrow> nat \<Rightarrow> nat \<Rightarrow> nat \<Rightarrow> nat \<Rightarrow> 'b list \<Rightarrow> 'b loop_state \<Rightarrow>
     error option \<times> (nat \<times> 'b list) \<times> 'b loop_state" where
  "valdt_loop cf fwd epoch train_num_batch valdt_num_batch idx [] st =
     (if valdt_fraction_done st \<le> train_fraction_done st \<and>
         valdt_batch_ind st + 1 < int valdt_num_batch
      then (Some StopIteration, (idx, []), st)
      else (None, (idx, []), st))"
| "valdt_loop cf fwd epoch train_num_batch valdt_num_batch idx (batch # rest) st =
     (if valdt_fraction_done st \<le> train_fraction_done st \<and>
         valdt_batch_ind st + 1 < int valdt_num_batch
      then (case valdt_step cf fwd epoch train_num_batch valdt_num_batch idx batch st of
              (Some e, st') \<Rightarrow> (Some e, (idx + 1, rest), st')
            | (None, st') \<Rightarrow>
                valdt_loop cf fwd epoch train_num_batch valdt_num_batch (idx + 1) rest st')
      else (None, (idx, batch # rest), st))"

text \<open>The \<^verbatim>\<open>for train_batch_ind, batch in train_batches\<close> loop of line 176.\<close>

fun train_batches ::
  "conf \<Rightarrow> ('b \<Rightarrow> error + tval) \<Rightarrow> nat \<Rightarrow> nat \<Rightarrow> nat \<Rightarrow> nat \<Rightarrow> 'b list \<Rightarrow> nat \<times> 'b list \<Rightarrow>
     'b loop_state \<Rightarrow> error option \<times> 'b loop_state" where
  "train_batches cf fwd epoch train_num_batch valdt_num_batch train_batch_ind [] valdt_batches st =
     (None, st)"
| "train_batches cf fwd epoch train_num_batch valdt_num_batch train_batch_ind (batch # rest)
       valdt_batches st =
     (case train_step cf fwd epoch train_num_batch train_batch_ind batch st of
        (Some e, st1) \<Rightarrow> (Some e, st1)
      | (None, st1) \<Rightarrow>
          (case valdt_loop cf fwd epoch train_num_batch valdt_num_batch
                  (fst valdt_batches) (snd valdt_batches) st1 of
             (Some e, valdt_batches', st2) \<Rightarrow> (Some e, st2)
           | (None, valdt_batches', st2) \<Rightarrow>
               train_batches cf fwd epoch train_num_batch valdt_num_batch
                 (train_batch_ind + 1) rest valdt_batches' st2))"

text \<open>
  One epoch (the body of the loop of line 162) over the batches that the two shuffled
  data loaders yield in this epoch. \<open>train_num_batch\<close> and \<open>valdt_num_batch\<close> are
  \<^verbatim>\<open>len(train_dataloader)\<close> and \<^verbatim>\<open>len(valdt_dataloader)\<close>, computed once before the loop.
\<close>

definition train_epoch ::
  "conf \<Rightarrow> ('b \<Rightarrow> error + tval) \<Rightarrow> nat \<Rightarrow> nat \<Rightarrow> nat \<Rightarrow> 'b list \<Rightarrow> 'b list \<Rightarrow> 'b loop_state \<Rightarrow>
     error option \<times> 'b loop_state" where
  "train_epoch cf fwd epoch train_num_batch valdt_num_batch train_dataloader valdt_dataloader st =
     train_batches cf fwd epoch train_num_batch valdt_num_batch 0 train_dataloader
       (0, valdt_dataloader)
       (st\<lparr>trace := [], train_fraction_done := 0, valdt_fraction_done := 0,
           valdt_batch_ind := - 1\<rparr>)"

text \<open>
  \<^verbatim>\<open>for epoch in range(conf.epochs)\<close>, over the list of epoch numbers; the data loaders
  give the batches of each epoch. The result holds the events of all epochs run.
\<close>

fun train_epochs ::
  "conf \<Rightarrow> ('b \<Rightarrow> error + tval) \<Rightarrow> nat \<Rightarrow> nat \<Rightarrow> (nat \<Rightarrow> 'b list) \<Rightarrow> (nat \<Rightarrow> 'b list) \<Rightarrow>
     nat list \<Rightarrow> 'b loop_state \<Rightarrow> error option \<times> 'b event list \<times> 'b loop_state" where
  "train_epochs cf fwd train_num_batch valdt_num_batch train_dataloader valdt_dataloader [] st =
     (None, [], st)"
| "train_epochs cf fwd train_num_batch valdt_num_batch train_dataloader valdt_dataloader
       (epoch # rest) st =
     (case train_epoch cf fwd epoch train_num_batch valdt_num_batch
             (train_dataloader epoch) (valdt_dataloader epoch) st of
        (Some e, st1) \<Rightarrow> (Some e, trace st1, st1)
      | (None, st1) \<Rightarrow>
          (case train_epochs cf fwd train_num_batch valdt_num_batch train_dataloader
                  valdt_dataloader rest st1 of
             (err, evs, st2) \<Rightarrow> (err, trace st1 @ evs, st2)))"

text \<open>
  Lines 242 to 247. \<^verbatim>\<open>models\<close> is the list \<^verbatim>\<open>[encoder, decoder]\<close> bound at line 100, and
  \<^verbatim>\<open>epoch\<close> is the loop variable, which is unbound when the loop ran zero times.
\<close>

definition final_checkpoint :: "conf \<Rightarrow> error + 'b event" where
  "final_checkpoint cf =
     (if epochs cf \<le> 0 then Inl (UnboundLocalError ''epoch'')
      else Inr (SaveCheckpoint [Encoder, Decoder] [''encoder'', ''decoder'']
                  (nat (epochs cf) - 1) False [''pointencoder'']))"

definition initial_state :: "'b loop_state" where
  "initial_state =
     \<lparr>trace = [], last_checkpoint_step = None, last_train_console_log_step = None,
      last_valdt_console_log_step = None, train_fraction_done = 0, valdt_fraction_done = 0,
      valdt_batch_ind = - 1\<rparr>"

definition train_loop ::
  "conf \<Rightarrow> ('b \<Rightarrow> error + tval) \<Rightarrow> nat \<Rightarrow> nat \<Rightarrow> (nat \<Rightarrow> 'b list) \<Rightarrow> (nat \<Rightarrow> 'b list) \<Rightarrow>
     error option \<times> 'b event list" where
  "train_loop cf fwd train_num_batch valdt_num_batch train_dataloader valdt_dataloader =
     (case train_epochs cf fwd train_num_batch valdt_num_batch train_dataloader
             valdt_dataloader [0..<nat (epochs cf)] initial_state of
        (Some e, evs, st) \<Rightarrow> (Some e, evs)
      | (None, evs, st) \<Rightarrow>
          (case final_checkpoint cf of
             Inl e \<Rightarrow> (Some e, evs)
           | Inr ev \<Rightarrow> (None, evs @ [ev])))"

text \<open>
  \<^verbatim>\<open>train\<close>: the phases in sequence; an error ends the run where it is raised. The
  forward pass of the loop is \<^verbatim>\<open>forward\<close> with \<^verbatim>\<open>data_features = ['object']\<close>.
\<close>

record ('fs, 'b) run =
  run_error :: "error option"
  run_fs :: 'fs
  run_ops :: "run_op list"
  run_trainer :: "trainer option"
  run_events :: "'b event list"

definition train ::
  "'fs os_ops \<Rightarrow> conf \<Rightarrow> string \<Rightarrow> 'fs \<Rightarrow> ('g \<Rightarrow> 'c) \<Rightarrow> ('g tree \<Rightarrow> 'z) \<Rightarrow>
     ('c \<Rightarrow> 'g node \<Rightarrow> losses) \<Rightarrow> nat \<Rightarrow> nat \<Rightarrow> (nat \<Rightarrow> 'g tree list list list) \<Rightarrow>
     (nat \<Rightarrow> 'g tree list list list) \<Rightarrow> ('fs, 'g tree list list) run" where
  "train os cf response fs pointencoder encoder decoder train_num_batch valdt_num_batch
       train_dataloader valdt_dataloader =
     (case prepare_run_dirs os cf response fs of
        (Some e, fs', ops) \<Rightarrow>
          \<lparr>run_error = Some e, run_fs = fs', run_ops = ops, run_trainer = None, run_events = []\<rparr>
      | (None, fs', ops) \<Rightarrow>
          (case train_loop cf
                  (\<lambda>batch. map_sum (\<lambda>e. e) fst
                     (forward batch [''object''] pointencoder encoder decoder cf))
                  train_num_batch valdt_num_batch train_dataloader valdt_dataloader of
             (err, evs) \<Rightarrow>
               \<lparr>run_error = err, run_fs = fs', run_ops = ops,
                run_trainer = Some (create_models cf), run_events = evs\<rparr>))"

section \<open>Reading a trace\<close>

text \<open>
  The order of the optimisation calls of a trace is checked by running it through the
  phases of a training step: a training \<open>Forward\<close> may only be followed by
  \<open>OptStep\<close>, then \<open>SchedStep\<close>, then \<open>ZeroGrad\<close>, then \<open>Backward\<close> on the loss
  that the forward pass returned for that batch, and none of the four may occur
  anywhere else. A trace may end after a training \<open>Forward\<close> (the forward pass raised).
\<close>

datatype 'b phase = Idle | Forwarded 'b | Stepped 'b | Scheduled 'b | Zeroed 'b

fun step_phase :: "('b \<Rightarrow> error + tval) \<Rightarrow> 'b phase \<Rightarrow> 'b event \<Rightarrow> 'b phase option" where
  "step_phase fwd p OptStep = (case p of Forwarded b \<Rightarrow> Some (Stepped b) | _ \<Rightarrow> None)"
| "step_phase fwd p SchedStep = (case p of Stepped b \<Rightarrow> Some (Scheduled b) | _ \<Rightarrow> None)"
| "step_phase fwd p ZeroGrad = (case p of Scheduled b \<Rightarrow> Some (Zeroed b) | _ \<Rightarrow> None)"
| "step_phase fwd p (Backward l) =
     (case p of Zeroed b \<Rightarrow> (if fwd b = Inr l then Some Idle else None) | _ \<Rightarrow> None)"
| "step_phase fwd p (Forward is_valdt i b log_console) =
     (case p of Idle \<Rightarrow> Some (if is_valdt then Idle else Forwarded b) | _ \<Rightarrow> None)"
| "step_phase fwd p (SetEval c) = (case p of Idle \<Rightarrow> Some Idle | _ \<Rightarrow> None)"
| "step_phase fwd p (SaveCheckpoint ms ns epoch prepend os) =
     (case p of Idle \<Rightarrow> Some Idle | _ \<Rightarrow> None)"

fun run_phases :: "('b \<Rightarrow> error + tval) \<Rightarrow> 'b phase \<Rightarrow> 'b event list \<Rightarrow> 'b phase option" where
  "run_phases fwd p [] = Some p"
| "run_phases fwd p (e # es) =
     (case step_phase fwd p e of None \<Rightarrow> None | Some p' \<Rightarrow> run_phases fwd p' es)"

definition steps_in_order :: "('b \<Rightarrow> error + tval) \<Rightarrow> 'b event list \<Rightarrow> bool" where
  "steps_in_order fwd tr =
     (case run_phases fwd Idle tr of
        Some Idle \<Rightarrow> True
      | Some (Forwarded b) \<Rightarrow> True
      | _ \<Rightarrow> False)"






section \<open>The aggregator over a given tensor addition\<close>





subsection \<open>Float32 addition\<close>

text \<open>
  \<^verbatim>\<open>torch.zeros(1)\<close> and the losses of the decoder are float32 tensors. The sum of two
  float32 numbers is their exact sum rounded to the nearest float32, ties to the even
  significand: a float32 with exponent \<open>e\<close> (from -126 to 127) is a multiple of
  \<open>2 ^ (e - 23)\<close>, numbers below \<open>2 ^ (-126)\<close> are multiples of \<open>2 ^ (-149)\<close>, and a
  rounded magnitude of \<open>2 ^ 128\<close> or more is an infinity. The sign of zero is not
  modelled.
\<close>

definition pow2 :: "int \<Rightarrow> real" where
  "pow2 e = (if 0 \<le> e then 2 ^ nat e else 1 / 2 ^ nat (- e))"







subsection \<open>Comparing per-tree runs with the shared run\<close>




section \<open>Example inputs\<close>

text \<open>
  A point cloud is stood for by a number, the point encoder returns it as the code, and
  the example decoder reports it as the \<^verbatim>\<open>geo\<close> loss of the node, all other terms 0.
  Tree A has a root with two children, each node with geometry 1; tree B is a single
  node with geometry 2.
\<close>

definition ex_point :: "real \<Rightarrow> real" where
  "ex_point g = g"

definition ex_encoder :: "real tree \<Rightarrow> nat" where
  "ex_encoder obj = 0"

definition ex_decoder :: "real \<Rightarrow> real node \<Rightarrow> losses" where
  "ex_decoder code obj_node =
     [(''latent'', Fin 0), (''geo'', Fin code), (''center'', Fin 0), (''scale'', Fin 0),
      (''leaf'', Fin 0), (''exists'', Fin 0), (''semantic'', Fin 0),
      (''edge_exists'', Fin 0), (''sym'', Fin 0), (''adj'', Fin 0)]"

definition ex_bad_decoder :: "real \<Rightarrow> real node \<Rightarrow> losses" where
  "ex_bad_decoder code obj_node = [(''geo'', Fin code), (''kld'', Fin 1)]"

definition ex_tree_a :: "real tree" where
  "ex_tree_a = Tree (Node 1 [Node 1 [], Node 1 []])"

definition ex_tree_b :: "real tree" where
  "ex_tree_b = Tree (Node 2 [])"



definition ex_conf :: conf where
  "ex_conf =
     \<lparr>exp_name = ''exp'', log_path = ''logs'', model_path = ''models'', lr = 1 / 1000,
      lr_decay_every = 500, lr_decay_by = 9 / 10, epochs = 2, no_console_log = False,
      no_tb_log = False, console_log_interval = 3, checkpoint_interval = 2,
      loss_weight_latent = 1, loss_weight_geo = 1, loss_weight_center = 1,
      loss_weight_scale = 1, loss_weight_leaf = 1, loss_weight_exists = 1,
      loss_weight_semantic = 1, loss_weight_edge_exists = 1, loss_weight_sym = 1,
      loss_weight_adj = 1\<rparr>"

text \<open>
  A file system that is the list of the directories that exist, a forward pass that
  returns the loss 1 on every batch, and the batches of an epoch named by numbers: two
  training batches and three validation batches.
\<close>

definition ex_os :: "string list os_ops" where
  "ex_os =
     \<lparr>path_join = (\<lambda>a b. a @ ''/'' @ b),
      path_exists = (\<lambda>fs p. p \<in> set fs),
      rmtree = (\<lambda>fs p. (None, removeAll p fs)),
      makedirs = (\<lambda>fs p. if p \<in> set fs then (Some (OSError p), fs) else (None, p # fs))\<rparr>"

definition ex_fwd :: "nat \<Rightarrow> error + tval" where
  "ex_fwd batch = Inr (Fin 1)"

definition ex_train_batches :: "nat list" where
  "ex_train_batches = [10, 11]"

definition ex_valdt_batches :: "nat list" where
  "ex_valdt_batches = [20, 21, 22]"

text \<open>The traces of the first epoch and of the whole run of two epochs on these inputs.\<close>

definition ex_epoch_trace :: "nat event list" where
  "ex_epoch_trace =
     [Forward False 0 10 True, OptStep, SchedStep, ZeroGrad, Backward (Fin 1),
      SaveCheckpoint [PointEncoder] [''pointencoder''] 0 True [''pointencoder''],
      SetEval Encoder, SetEval Decoder, SetEval PointEncoder, Forward True 0 20 True,
      SetEval Encoder, SetEval Decoder, SetEval PointEncoder, Forward True 1 21 False,
      Forward False 1 11 False, OptStep, SchedStep, ZeroGrad, Backward (Fin 1),
      SetEval Encoder, SetEval Decoder, SetEval PointEncoder, Forward True 2 22 False]"

definition ex_run_trace :: "nat event list" where
  "ex_run_trace =
     ex_epoch_trace @
     [Forward False 0 10 False, OptStep, SchedStep, ZeroGrad, Backward (Fin 1),
      SaveCheckpoint [PointEncoder] [''pointencoder''] 1 True [''pointencoder''],
      SetEval Encoder, SetEval Decoder, SetEval PointEncoder, Forward True 0 20 False,
      SetEval Encoder, SetEval Decoder, SetEval PointEncoder, Forward True 1 21 False,
      Forward False 1 11 True, OptStep, SchedStep, ZeroGrad, Backward (Fin 1),
      SetEval Encoder, SetEval Decoder, SetEval PointEncoder, Forward True 2 22 True,
      SaveCheckpoint [Encoder, Decoder] [''encoder'', ''decoder''] 1 False [''pointencoder'']]"

section \<open>Properties of the aggregator and of the forward pass\<close>




lemma init_losses_keys: "map fst init_losses = vocabulary"
  by (simp add: init_losses_def vocabulary_def)


lemma update_keys_present:
  "map_of al k = Some v \<Longrightarrow> map fst (AList.update k w al) = map fst al"
  by (induction al) (auto split: if_splits)

lemma map_of_Some_in_keys: "map_of al k = Some v \<Longrightarrow> k \<in> fst ` set al"
  by (auto dest: map_of_SomeD intro: rev_image_eqI)

lemma accumulate_keys:
  "accumulate obj_losses losses = Inr losses' \<Longrightarrow> map fst losses' = map fst losses"
  by (induction obj_losses losses rule: accumulate.induct)
     (auto split: option.splits simp: update_keys_present)

lemma accumulate_missing:
  "\<exists>name \<in> fst ` set obj_losses. name \<notin> fst ` set losses \<Longrightarrow>
   \<exists>k. accumulate obj_losses losses = Inl (KeyError k) \<and>
       k \<in> fst ` set obj_losses \<and> k \<notin> fst ` set losses"
proof (induction obj_losses losses rule: accumulate.induct)
  case (1 losses)
  then show ?case by simp
next
  case (2 loss_name loss obj_losses losses)
  show ?case
  proof (cases "map_of losses loss_name")
    case None
    then have "loss_name \<notin> fst ` set losses" by (simp add: map_of_eq_None_iff)
    with None show ?thesis by auto
  next
    case (Some v)
    then have in_keys: "loss_name \<in> fst ` set losses" by (rule map_of_Some_in_keys)
    let ?l = "AList.update loss_name (tadd v loss) losses"
    have keys: "fst ` set ?l = fst ` set losses"
      using in_keys by (auto simp: dom_update)
    from "2.prems" in_keys have "\<exists>name \<in> fst ` set obj_losses. name \<notin> fst ` set ?l"
      unfolding keys by auto
    from "2.IH"[OF Some this] Some keys show ?thesis by auto
  qed
qed

lemma weight_losses_keys:
  "weight_losses ws losses = Inr losses' \<Longrightarrow> map fst losses' = map fst losses"
  by (induction ws losses rule: weight_losses.induct)
     (auto split: option.splits simp: update_keys_present)

lemma forward_keys_count:
  fixes pe :: "'g \<Rightarrow> 'c" and dec :: "'c \<Rightarrow> 'g node \<Rightarrow> losses"
  shows "forward_one_obj n pe dec losses cnt = Inr (losses', cnt') \<Longrightarrow>
     map fst losses' = map fst losses \<and> cnt' = cnt + node_count n"
  and "forward_children ns pe dec losses cnt = Inr (losses', cnt') \<Longrightarrow>
     map fst losses' = map fst losses \<and> cnt' = cnt + sum_list (map node_count ns)"
proof (induction n pe dec losses cnt and ns pe dec losses cnt
    arbitrary: losses' cnt' and losses' cnt'
    rule: forward_one_obj_forward_children.induct)
  case (1 g cs pointnet decoder losses cnt)
  then show ?case
    by (auto simp: forward_one_node_def split: sum.splits dest: accumulate_keys)
next
  case (2 pointnet decoder losses cnt)
  then show ?case by simp
next
  case (3 child rest pointnet decoder losses cnt)
  then show ?case
    by (fastforce split: sum.splits prod.splits)
qed

lemma forward_objects_keys_count:
  "forward_objects objs enc pe dec losses cnt = Inr (losses', cnt') \<Longrightarrow>
     map fst losses' = map fst losses \<and>
     cnt' = cnt + (\<Sum>obj\<leftarrow>objs. node_count (root obj))"
proof (induction objs arbitrary: losses cnt)
  case Nil
  then show ?case by simp
next
  case (Cons obj objs)
  from Cons.prems obtain l1 c1 where
    one: "forward_one_obj (root obj) pe dec losses cnt = Inr (l1, c1)" and
    rest: "forward_objects objs enc pe dec l1 c1 = Inr (losses', cnt')"
    by (auto split: sum.splits)
  from forward_keys_count(1)[OF one] Cons.IH[OF rest] show ?case by simp
qed

lemma forward_objects_encoder:
  "forward_objects objs enc1 pe dec losses cnt = forward_objects objs enc2 pe dec losses cnt"
  by (induction objs arbitrary: losses cnt) (auto split: sum.splits)

text \<open>
  C10. The accumulator of \<^verbatim>\<open>forward\<close> starts with exactly the ten names of the
  vocabulary, in this order. A per-node accumulation that returns leaves the list of keys
  as it was (it rebinds slots, it never adds one), and so the per-term values that
  \<^verbatim>\<open>forward\<close> returns are again keyed by the ten names. When the decoder's loss
  mapping for a node holds a name that the accumulator does not, \<^verbatim>\<open>forward_one_node\<close>
  raises KeyError for a name outside the accumulator instead of creating a slot.
\<close>

theorem accumulator_keys_invariant:
  "map fst init_losses = vocabulary \<and>
   (forward_one_node obj_node pointencoder decoder losses = Inr losses' \<longrightarrow>
      map fst losses' = map fst losses) \<and>
   ((\<exists>name \<in> fst ` set (decoder (pointencoder (norm_geo obj_node)) obj_node).
        name \<notin> fst ` set losses) \<longrightarrow>
      (\<exists>k. forward_one_node obj_node pointencoder decoder losses = Inl (KeyError k) \<and>
           k \<notin> fst ` set losses)) \<and>
   (forward batch data_features pointencoder encoder decoder cf = Inr (total_loss, final) \<longrightarrow>
      map fst final = vocabulary)"
proof (intro conjI impI)
  show "map fst init_losses = vocabulary" by (rule init_losses_keys)
next
  assume "forward_one_node obj_node pointencoder decoder losses = Inr losses'"
  then show "map fst losses' = map fst losses"
    by (simp add: forward_one_node_def accumulate_keys)
next
  assume "\<exists>name \<in> fst ` set (decoder (pointencoder (norm_geo obj_node)) obj_node).
        name \<notin> fst ` set losses"
  from accumulate_missing[OF this]
  show "\<exists>k. forward_one_node obj_node pointencoder decoder losses = Inl (KeyError k) \<and>
           k \<notin> fst ` set losses"
    by (auto simp: forward_one_node_def)
next
  assume "forward batch data_features pointencoder encoder decoder cf = Inr (total_loss, final)"
  then obtain objects acc cnt where
    run: "forward_objects objects encoder pointencoder decoder init_losses 0 = Inr (acc, cnt)" and
    w: "weight_losses (loss_weights cf) (normalize_losses acc cnt) = Inr final"
    by (auto simp: forward_def forward_normalized_def split: sum.splits)
  from forward_objects_keys_count[OF run] have "map fst acc = vocabulary"
    by (simp add: init_losses_keys)
  then have "map fst (normalize_losses acc cnt) = vocabulary"
    by (simp add: normalize_losses_def case_prod_unfold comp_def)
  with weight_losses_keys[OF w] show "map fst final = vocabulary" by simp
qed



lemma ex_leaf_run:
  "forward_one_node (Node 1 []) ex_point ex_decoder init_losses =
     Inr [(''latent'', Fin 0), (''geo'', Fin 1), (''center'', Fin 0), (''scale'', Fin 0),
       (''leaf'', Fin 0), (''exists'', Fin 0), (''semantic'', Fin 0),
       (''edge_exists'', Fin 0), (''sym'', Fin 0), (''adj'', Fin 0)]"
  by (simp add: forward_one_node_def ex_point_def ex_decoder_def init_losses_def)

lemma ex_accumulated:
  "forward_objects [ex_tree_a, ex_tree_b] ex_encoder ex_point ex_decoder init_losses 0 =
     Inr ([(''latent'', Fin 0), (''geo'', Fin 5), (''center'', Fin 0), (''scale'', Fin 0),
       (''leaf'', Fin 0), (''exists'', Fin 0), (''semantic'', Fin 0),
       (''edge_exists'', Fin 0), (''sym'', Fin 0), (''adj'', Fin 0)], 4)"
  by (simp add: ex_tree_a_def ex_tree_b_def forward_one_node_def ex_point_def ex_decoder_def
      init_losses_def)

lemma ex_normalized:
  "forward_normalized [[ex_tree_a, ex_tree_b]] [''object''] ex_point ex_encoder ex_decoder =
     Inr [(''latent'', Fin 0), (''geo'', Fin (5 / 4)), (''center'', Fin 0), (''scale'', Fin 0),
       (''leaf'', Fin 0), (''exists'', Fin 0), (''semantic'', Fin 0),
       (''edge_exists'', Fin 0), (''sym'', Fin 0), (''adj'', Fin 0)]"
  by (simp add: forward_normalized_def batch_objects_def ex_accumulated normalize_losses_def
      del: forward_objects.simps)

lemma ex_forward:
  "forward [[ex_tree_a, ex_tree_b]] [''object''] ex_point ex_encoder ex_decoder ex_conf =
     Inr (Fin (5 / 4),
       [(''latent'', Fin 0), (''geo'', Fin (5 / 4)), (''center'', Fin 0), (''scale'', Fin 0),
        (''leaf'', Fin 0), (''exists'', Fin 0), (''semantic'', Fin 0),
        (''edge_exists'', Fin 0), (''sym'', Fin 0), (''adj'', Fin 0)])"
  by (simp add: forward_def ex_normalized loss_weights_def ex_conf_def total_of_def)

theorem accumulator_keys_invariant_witness:
  "forward_one_node (Node 1 []) ex_point ex_decoder init_losses =
     Inr [(''latent'', Fin 0), (''geo'', Fin 1), (''center'', Fin 0), (''scale'', Fin 0),
       (''leaf'', Fin 0), (''exists'', Fin 0), (''semantic'', Fin 0),
       (''edge_exists'', Fin 0), (''sym'', Fin 0), (''adj'', Fin 0)] \<and>
   ''kld'' \<in> fst ` set (ex_bad_decoder (ex_point (norm_geo (Node 1 []))) (Node 1 [])) \<and>
   ''kld'' \<notin> fst ` set init_losses \<and>
   (\<exists>k. forward_one_node (Node 1 []) ex_point ex_bad_decoder init_losses = Inl (KeyError k) \<and>
        k \<notin> fst ` set init_losses) \<and>
   forward [[ex_tree_a, ex_tree_b]] [''object''] ex_point ex_encoder ex_decoder ex_conf =
     Inr (Fin (5 / 4),
       [(''latent'', Fin 0), (''geo'', Fin (5 / 4)), (''center'', Fin 0), (''scale'', Fin 0),
        (''leaf'', Fin 0), (''exists'', Fin 0), (''semantic'', Fin 0),
        (''edge_exists'', Fin 0), (''sym'', Fin 0), (''adj'', Fin 0)]) \<and>
   map fst [(''latent'', Fin 0), (''geo'', Fin (5 / 4)), (''center'', Fin 0), (''scale'', Fin 0),
        (''leaf'', Fin 0), (''exists'', Fin 0), (''semantic'', Fin 0),
        (''edge_exists'', Fin 0), (''sym'', Fin 0), (''adj'', Fin 0)] = vocabulary"
proof -
  have bad: "''kld'' \<in> fst ` set (ex_bad_decoder (ex_point (norm_geo (Node 1 []))) (Node 1 []))"
    "''kld'' \<notin> fst ` set init_losses"
    by (simp_all add: ex_bad_decoder_def init_losses_def)
  then have "\<exists>name \<in> fst ` set (ex_bad_decoder (ex_point (norm_geo (Node 1 []))) (Node 1 [])).
      name \<notin> fst ` set init_losses"
    by blast
  with accumulator_keys_invariant[where obj_node = "Node 1 []" and pointencoder = ex_point
      and decoder = ex_bad_decoder and losses = init_losses]
  have "\<exists>k. forward_one_node (Node 1 []) ex_point ex_bad_decoder init_losses = Inl (KeyError k) \<and>
        k \<notin> fst ` set init_losses"
    by blast
  moreover from accumulator_keys_invariant[where batch = "[[ex_tree_a, ex_tree_b]]"
      and data_features = "[''object'']" and pointencoder = ex_point and encoder = ex_encoder
      and decoder = ex_decoder and cf = ex_conf] ex_forward
  have "map fst [(''latent'', Fin 0), (''geo'', Fin (5 / 4)), (''center'', Fin 0),
        (''scale'', Fin 0), (''leaf'', Fin 0), (''exists'', Fin 0), (''semantic'', Fin 0),
        (''edge_exists'', Fin 0), (''sym'', Fin 0), (''adj'', Fin 0)] = vocabulary"
    by blast
  ultimately show ?thesis using bad ex_leaf_run ex_forward by blast
qed

text \<open>
  C3. When the accumulation over the objects of a batch returns, the final count is the
  number of nodes summed over all objects of the batch (the count runs on from object to
  object), the accumulator holds the ten slots, and the normalised accumulator is every
  slot divided by that one count. For the batch of tree A (three nodes, \<^verbatim>\<open>geo\<close> 1 each)
  and tree B (one node, \<^verbatim>\<open>geo\<close> 2) the normalised \<^verbatim>\<open>geo\<close> term is 5/4 = 1.25 and the
  other terms are 0.
\<close>

theorem visit_count_and_normalisation:
  assumes "batch_objects batch data_features = Inr objects"
    and "forward_objects objects encoder point decoder init_losses 0 = Inr (losses, cnt)"
  shows "cnt = (\<Sum>obj\<leftarrow>objects. node_count (root obj)) \<and>
     map fst losses = vocabulary \<and>
     forward_normalized batch data_features point encoder decoder =
       Inr (map (\<lambda>(loss_name, v).
              (loss_name, tdiv v (\<Sum>obj\<leftarrow>objects. node_count (root obj)))) losses) \<and>
     forward_normalized [[ex_tree_a, ex_tree_b]] [''object''] ex_point ex_encoder ex_decoder =
       Inr [(''latent'', Fin 0), (''geo'', Fin (5 / 4)), (''center'', Fin 0),
         (''scale'', Fin 0), (''leaf'', Fin 0), (''exists'', Fin 0), (''semantic'', Fin 0),
         (''edge_exists'', Fin 0), (''sym'', Fin 0), (''adj'', Fin 0)]"
proof -
  from forward_objects_keys_count[OF assms(2)]
  have cnt: "cnt = (\<Sum>obj\<leftarrow>objects. node_count (root obj))" and
    keys: "map fst losses = vocabulary"
    by (simp_all add: init_losses_keys)
  have "forward_normalized batch data_features point encoder decoder =
      Inr (normalize_losses losses cnt)"
    using assms by (simp add: forward_normalized_def)
  with cnt keys ex_normalized show ?thesis by (simp add: normalize_losses_def)
qed

theorem visit_count_and_normalisation_witness:
  "batch_objects [[ex_tree_a, ex_tree_b]] [''object''] = Inr [ex_tree_a, ex_tree_b] \<and>
   forward_objects [ex_tree_a, ex_tree_b] ex_encoder ex_point ex_decoder init_losses 0 =
     Inr ([(''latent'', Fin 0), (''geo'', Fin 5), (''center'', Fin 0), (''scale'', Fin 0),
       (''leaf'', Fin 0), (''exists'', Fin 0), (''semantic'', Fin 0),
       (''edge_exists'', Fin 0), (''sym'', Fin 0), (''adj'', Fin 0)], 4) \<and>
   (4::nat) = node_count (root ex_tree_a) + node_count (root ex_tree_b) \<and>
   forward_normalized [[ex_tree_a, ex_tree_b]] [''object''] ex_point ex_encoder ex_decoder =
     Inr [(''latent'', tdiv (Fin 0) 4), (''geo'', tdiv (Fin 5) 4), (''center'', tdiv (Fin 0) 4),
       (''scale'', tdiv (Fin 0) 4), (''leaf'', tdiv (Fin 0) 4), (''exists'', tdiv (Fin 0) 4),
       (''semantic'', tdiv (Fin 0) 4), (''edge_exists'', tdiv (Fin 0) 4),
       (''sym'', tdiv (Fin 0) 4), (''adj'', tdiv (Fin 0) 4)]"
proof -
  have b: "batch_objects [[ex_tree_a, ex_tree_b]] [''object''] = Inr [ex_tree_a, ex_tree_b]"
    by (simp add: batch_objects_def)
  from visit_count_and_normalisation[OF b ex_accumulated]
  have "(4::nat) = (\<Sum>obj\<leftarrow>[ex_tree_a, ex_tree_b]. node_count (root obj))"
    and "forward_normalized [[ex_tree_a, ex_tree_b]] [''object''] ex_point ex_encoder ex_decoder =
      Inr (map (\<lambda>(loss_name, v).
              (loss_name, tdiv v (\<Sum>obj\<leftarrow>[ex_tree_a, ex_tree_b]. node_count (root obj))))
           [(''latent'', Fin 0), (''geo'', Fin 5), (''center'', Fin 0), (''scale'', Fin 0),
            (''leaf'', Fin 0), (''exists'', Fin 0), (''semantic'', Fin 0),
            (''edge_exists'', Fin 0), (''sym'', Fin 0), (''adj'', Fin 0)])"
    by blast+
  then show ?thesis using b ex_accumulated by simp
qed

lemma node_count_pos: "0 < node_count n"
  by (cases n) simp

lemma zero_nodes_empty: "(\<Sum>obj\<leftarrow>objects. node_count (root obj)) = 0 \<Longrightarrow> objects = []"
proof (cases objects)
  case Nil
  then show ?thesis by simp
next
  case (Cons obj rest)
  assume "(\<Sum>obj\<leftarrow>objects. node_count (root obj)) = 0"
  with Cons have "node_count (root obj) = 0" by simp
  with node_count_pos[of "root obj"] show ?thesis by simp
qed

text \<open>
  C1, as stated, fails: on the empty batch \<^verbatim>\<open>forward\<close> raises nothing and returns NaN
  as the total loss and as each of the ten per-term values.
\<close>

theorem zero_node_batch_counterexample:
  "forward [[]] [''object''] ex_point ex_encoder ex_decoder ex_conf =
     Inr (NaN, [(''latent'', NaN), (''geo'', NaN), (''center'', NaN), (''scale'', NaN),
       (''leaf'', NaN), (''exists'', NaN), (''semantic'', NaN), (''edge_exists'', NaN),
       (''sym'', NaN), (''adj'', NaN)])"
  by (simp add: forward_def forward_normalized_def batch_objects_def init_losses_def
     normalize_losses_def loss_weights_def total_of_def)

text \<open>
  C1, amended. A batch whose objects hold zero nodes in total is the empty batch (every
  object has a root node), and on it \<^verbatim>\<open>forward\<close> raises no error: the count is 0, each
  slot is 0/0, and the total loss and every per-term value returned are NaN, whatever
  the weights.
\<close>

theorem zero_node_batch_returns_nan:
  assumes "batch_objects batch data_features = Inr objects"
    and "(\<Sum>obj\<leftarrow>objects. node_count (root obj)) = 0"
  shows "objects = [] \<and>
     forward batch data_features point encoder decoder cf =
       Inr (NaN, [(''latent'', NaN), (''geo'', NaN), (''center'', NaN), (''scale'', NaN),
         (''leaf'', NaN), (''exists'', NaN), (''semantic'', NaN), (''edge_exists'', NaN),
         (''sym'', NaN), (''adj'', NaN)])"
proof -
  from assms(2) have e: "objects = []" by (rule zero_nodes_empty)
  with assms(1) show ?thesis
    by (simp add: forward_def forward_normalized_def init_losses_def
       normalize_losses_def loss_weights_def total_of_def)
qed

theorem zero_node_batch_returns_nan_witness:
  "batch_objects [[]] [''object''] = Inr ([] :: real tree list) \<and>
   (\<Sum>obj\<leftarrow>([] :: real tree list). node_count (root obj)) = 0 \<and>
   forward [[]] [''object''] ex_point ex_encoder ex_decoder ex_conf =
     Inr (NaN, [(''latent'', NaN), (''geo'', NaN), (''center'', NaN), (''scale'', NaN),
       (''leaf'', NaN), (''exists'', NaN), (''semantic'', NaN), (''edge_exists'', NaN),
       (''sym'', NaN), (''adj'', NaN)])"
proof -
  have b: "batch_objects [[]] [''object''] = Inr ([] :: real tree list)"
    by (simp add: batch_objects_def)
  have z: "(\<Sum>obj\<leftarrow>([] :: real tree list). node_count (root obj)) = 0" by simp
  from zero_node_batch_returns_nan[OF b z, of ex_point ex_encoder ex_decoder ex_conf] b z
  show ?thesis by blast
qed

text \<open>
  C8. The total loss and the per-term values that \<^verbatim>\<open>forward\<close> returns do not depend on
  what \<^verbatim>\<open>encode_structure\<close> returns: two runs that differ only in the structure encoder
  return the same result (or raise the same error).
\<close>

theorem losses_independent_of_structure_code:
  "forward batch data_features point encoder1 decoder cf =
   forward batch data_features point encoder2 decoder cf"
proof -
  have "forward_normalized batch data_features point encoder1 decoder =
      forward_normalized batch data_features point encoder2 decoder"
    unfolding forward_normalized_def
    by (simp add: forward_objects_encoder[of _ encoder1 _ _ _ _ encoder2] split: sum.splits)
  then show ?thesis by (simp add: forward_def)
qed

subsection \<open>Per-tree runs against the shared run\<close>




















lemma pow2_powr: "pow2 e = 2 powr (real_of_int e)"
proof (cases "0 \<le> e")
  case True
  then have "2 powr (real_of_int e) = (2::real) ^ nat e"
    by (metis of_int_of_nat_eq of_nat_nat powr_realpow zero_less_numeral)
  with True show ?thesis by (simp add: pow2_def)
next
  case False
  then have "real_of_int e = - real (nat (- e))" by simp
  then have "2 powr (real_of_int e) = 1 / (2::real) ^ nat (- e)"
    by (simp only: powr_minus powr_realpow zero_less_numeral inverse_eq_divide)
  with False show ?thesis by (simp add: pow2_def)
qed


lemma pow2_le: "(pow2 a \<le> pow2 b) = (a \<le> b)"
  by (simp add: pow2_powr)



















section \<open>Properties of the training orchestrator\<close>

text \<open>
  C9. When the log directory or the model directory of the run name exists, the user is
  prompted, and any response other than exactly \<^verbatim>\<open>y\<close> ends the process with SystemExit:
  the prompt is the only operation made, no directory is removed or created, the file
  system is as it was, and \<^verbatim>\<open>train\<close> does nothing further.
\<close>

theorem declined_overwrite_exits:
  assumes "path_exists os fs (path_join os (log_path cf) (exp_name cf)) \<or>
           path_exists os fs (path_join os (model_path cf) (exp_name cf))"
    and "response \<noteq> ''y''"
  shows "prepare_run_dirs os cf response fs = (Some SystemExit, fs, [Prompt (exp_name cf)]) \<and>
     train os cf response fs pointencoder encoder decoder train_num_batch valdt_num_batch
         train_dataloader valdt_dataloader =
       \<lparr>run_error = Some SystemExit, run_fs = fs, run_ops = [Prompt (exp_name cf)],
        run_trainer = None, run_events = []\<rparr>"
proof -
  have "prepare_run_dirs os cf response fs = (Some SystemExit, fs, [Prompt (exp_name cf)])"
    using assms by (simp add: prepare_run_dirs_def Let_def)
  then show ?thesis by (simp add: train_def)
qed

theorem declined_overwrite_exits_witness:
  "(path_exists ex_os [''logs/exp''] (path_join ex_os (log_path ex_conf) (exp_name ex_conf)) \<or>
    path_exists ex_os [''logs/exp''] (path_join ex_os (model_path ex_conf) (exp_name ex_conf))) \<and>
   ''n'' \<noteq> ''y'' \<and>
   prepare_run_dirs ex_os ex_conf ''n'' [''logs/exp''] =
     (Some SystemExit, [''logs/exp''], [Prompt ''exp'']) \<and>
   train ex_os ex_conf ''n'' [''logs/exp''] ex_point ex_encoder ex_decoder 2 1
       (\<lambda>epoch. [[[ex_tree_a]], [[ex_tree_b]]]) (\<lambda>epoch. [[[ex_tree_b]]]) =
     \<lparr>run_error = Some SystemExit, run_fs = [''logs/exp''], run_ops = [Prompt ''exp''],
      run_trainer = None, run_events = []\<rparr>"
proof -
  have e: "path_exists ex_os [''logs/exp''] (path_join ex_os (log_path ex_conf) (exp_name ex_conf)) \<or>
    path_exists ex_os [''logs/exp''] (path_join ex_os (model_path ex_conf) (exp_name ex_conf))"
    by (simp add: ex_os_def ex_conf_def)
  have n: "''n'' \<noteq> ''y''" by simp
  have x: "exp_name ex_conf = ''exp''" by (simp add: ex_conf_def)
  from declined_overwrite_exits[OF e n, of ex_point ex_encoder ex_decoder 2 1
      "\<lambda>epoch. [[[ex_tree_a]], [[ex_tree_b]]]" "\<lambda>epoch. [[[ex_tree_b]]]"] e n
  show ?thesis unfolding x by blast
qed

text \<open>The same run when the user accepts: the log directory is removed and both are created.\<close>

lemma accepted_overwrite_example:
  "prepare_run_dirs ex_os ex_conf ''y'' [''logs/exp''] =
     (None, [''logs/exp'', ''models/exp''],
      [Prompt ''exp'', RmTree ''logs/exp'', MakeDirs ''models/exp'', MakeDirs ''logs/exp''])"
  by (simp add: prepare_run_dirs_def ex_os_def ex_conf_def remove_run_dir_def
      create_run_dir_def Let_def)

text \<open>
  C2, evaluated on the example configuration (it holds for every configuration): the
  optimizer that \<^verbatim>\<open>train\<close> names \<^verbatim>\<open>point_opt\<close> is built over the parameters of the
  structure encoder, which are frozen, and the schedule wraps that optimizer. The
  structure encoder and the decoder are frozen and in evaluation mode, and the point
  encoder takes gradients, but its parameters are given to no optimizer.
\<close>

theorem optimizer_over_frozen_encoder:
  "opt_params (point_opt (create_models ex_conf)) = [Encoder] \<and>
   sched_optimizer (point_scheduler (create_models ex_conf)) = point_opt (create_models ex_conf) \<and>
   flags (create_models ex_conf) Encoder = \<lparr>training = False, requires_grad = False\<rparr> \<and>
   flags (create_models ex_conf) Decoder = \<lparr>training = False, requires_grad = False\<rparr> \<and>
   flags (create_models ex_conf) PointEncoder = \<lparr>training = True, requires_grad = True\<rparr>"
  by (simp add: create_models_def Let_def freeze_def set_eval_def fresh_modules_def)

lemma run_phases_append:
  "run_phases fwd p (a @ b) =
     (case run_phases fwd p a of None \<Rightarrow> None | Some p' \<Rightarrow> run_phases fwd p' b)"
  by (induction a arbitrary: p) (auto split: option.splits)










lemma train_step_phases:
  assumes "train_step cf fwd epoch n i batch st = (err, st')"
    and "run_phases fwd Idle (trace st) = Some Idle"
  shows "(err = None \<longrightarrow> run_phases fwd Idle (trace st') = Some Idle) \<and>
     steps_in_order fwd (trace st')"
  using assms
  by (auto simp: train_step_def Let_def periodic_checkpoint_def run_phases_append
      steps_in_order_def split: if_splits sum.splits)

lemma valdt_step_phases:
  assumes "valdt_step cf fwd epoch n m idx batch st = (err, st')"
    and "run_phases fwd Idle (trace st) = Some Idle"
  shows "run_phases fwd Idle (trace st') = Some Idle"
  using assms
  by (auto simp: valdt_step_def Let_def run_phases_append split: if_splits sum.splits)

lemma idle_in_order: "run_phases fwd Idle tr = Some Idle \<Longrightarrow> steps_in_order fwd tr"
  by (simp add: steps_in_order_def)

lemma valdt_loop_phases:
  assumes "valdt_loop cf fwd epoch n m idx rest st = (err, it, st')"
    and "run_phases fwd Idle (trace st) = Some Idle"
  shows "run_phases fwd Idle (trace st') = Some Idle"
  using assms
proof (induction rest arbitrary: idx st)
  case Nil
  then show ?case by (auto split: if_splits)
next
  case (Cons batch rest)
  show ?case
  proof (cases "valdt_fraction_done st \<le> train_fraction_done st \<and>
      valdt_batch_ind st + 1 < int m")
    case False
    with Cons.prems show ?thesis by auto
  next
    case True
    obtain e1 st1 where s1: "valdt_step cf fwd epoch n m idx batch st = (e1, st1)"
      by (cases "valdt_step cf fwd epoch n m idx batch st")
    from valdt_step_phases[OF s1 Cons.prems(2)]
    have p1: "run_phases fwd Idle (trace st1) = Some Idle" .
    show ?thesis
    proof (cases e1)
      case None
      with Cons.prems(1) True s1
      have "valdt_loop cf fwd epoch n m (idx + 1) rest st1 = (err, it, st')" by simp
      from Cons.IH[OF this p1] show ?thesis .
    next
      case (Some e)
      with Cons.prems(1) True s1 have "st' = st1" by simp
      with p1 show ?thesis by simp
    qed
  qed
qed

lemma train_batches_phases:
  assumes "train_batches cf fwd epoch n m i tbs it st = (err, st')"
    and "run_phases fwd Idle (trace st) = Some Idle"
  shows "(err = None \<longrightarrow> run_phases fwd Idle (trace st') = Some Idle) \<and>
     steps_in_order fwd (trace st')"
  using assms
proof (induction tbs arbitrary: i it st)
  case Nil
  then show ?case by (auto simp: idle_in_order)
next
  case (Cons batch tbs)
  obtain e1 st1 where s1: "train_step cf fwd epoch n i batch st = (e1, st1)"
    by (cases "train_step cf fwd epoch n i batch st")
  note p1 = train_step_phases[OF s1 Cons.prems(2)]
  show ?case
  proof (cases e1)
    case (Some e)
    with Cons.prems(1) s1 have "err = Some e" "st' = st1" by simp_all
    with p1 show ?thesis by simp
  next
    case None
    with p1 have i1: "run_phases fwd Idle (trace st1) = Some Idle" by simp
    obtain e2 it2 st2 where
      s2: "valdt_loop cf fwd epoch n m (fst it) (snd it) st1 = (e2, it2, st2)"
      by (cases "valdt_loop cf fwd epoch n m (fst it) (snd it) st1") auto
    from valdt_loop_phases[OF s2 i1]
    have i2: "run_phases fwd Idle (trace st2) = Some Idle" .
    show ?thesis
    proof (cases e2)
      case (Some e)
      with Cons.prems(1) s1 None s2 have "err = Some e" "st' = st2" by simp_all
      with i2 show ?thesis by (simp add: idle_in_order)
    next
      case n2: None
      with Cons.prems(1) s1 None s2
      have "train_batches cf fwd epoch n m (i + 1) tbs it2 st2 = (err, st')" by simp
      from Cons.IH[OF this i2] show ?thesis .
    qed
  qed
qed

lemma train_epoch_phases:
  assumes "train_epoch cf fwd epoch n m tb vb st = (err, st')"
  shows "(err = None \<longrightarrow> run_phases fwd Idle (trace st') = Some Idle) \<and>
     steps_in_order fwd (trace st')"
  using assms unfolding train_epoch_def
  by (rule train_batches_phases) simp

lemma train_epochs_phases:
  assumes "train_epochs cf fwd n m tb vb es st = (err, evs, st')"
  shows "(err = None \<longrightarrow> run_phases fwd Idle evs = Some Idle) \<and> steps_in_order fwd evs"
  using assms
proof (induction es arbitrary: st err evs st')
  case Nil
  then show ?case by (simp add: steps_in_order_def)
next
  case (Cons epoch es)
  obtain e1 st1 where s1: "train_epoch cf fwd epoch n m (tb epoch) (vb epoch) st = (e1, st1)"
    by (cases "train_epoch cf fwd epoch n m (tb epoch) (vb epoch) st")
  note p1 = train_epoch_phases[OF s1]
  show ?case
  proof (cases e1)
    case (Some e)
    with Cons.prems s1 have "err = Some e" "evs = trace st1" by auto
    with p1 show ?thesis by simp
  next
    case None
    with p1 have i1: "run_phases fwd Idle (trace st1) = Some Idle" by simp
    obtain e2 evs2 st2 where s2: "train_epochs cf fwd n m tb vb es st1 = (e2, evs2, st2)"
      by (cases "train_epochs cf fwd n m tb vb es st1") auto
    with Cons.prems s1 None have r: "err = e2" "evs = trace st1 @ evs2" by auto
    from Cons.IH[OF s2] i1 r show ?thesis
      by (simp add: run_phases_append steps_in_order_def)
  qed
qed

lemma train_loop_phases:
  "steps_in_order fwd (snd (train_loop cf fwd n m tb vb))"
proof -
  obtain e evs st where
    s: "train_epochs cf fwd n m tb vb [0..<nat (epochs cf)] initial_state = (e, evs, st)"
    by (cases "train_epochs cf fwd n m tb vb [0..<nat (epochs cf)] initial_state") auto
  from train_epochs_phases[OF s] s show ?thesis
    by (auto simp: train_loop_def final_checkpoint_def run_phases_append steps_in_order_def
        split: option.splits)
qed








lemma ex_loop:
  "train_loop ex_conf ex_fwd 2 3 (\<lambda>epoch. ex_train_batches) (\<lambda>epoch. ex_valdt_batches) =
     (None, ex_run_trace)"
  by (simp add: train_loop_def final_checkpoint_def train_epoch_def ex_train_batches_def
     ex_valdt_batches_def initial_state_def
     train_step_def valdt_step_def periodic_checkpoint_def ex_conf_def ex_fwd_def Let_def
     ex_epoch_trace_def ex_run_trace_def upt_rec)

lemma ex_step:
  "train_step ex_conf ex_fwd 0 2 0 10 initial_state =
     (None, \<lparr>trace = [Forward False 0 10 True, OptStep, SchedStep, ZeroGrad, Backward (Fin 1),
           SaveCheckpoint [PointEncoder] [''pointencoder''] 0 True [''pointencoder'']],
        last_checkpoint_step = Some 0,
        last_train_console_log_step = Some 0, last_valdt_console_log_step = None,
        train_fraction_done = 1 / 2, valdt_fraction_done = 0, valdt_batch_ind = - 1\<rparr>)"
  by (simp add: initial_state_def train_step_def periodic_checkpoint_def ex_conf_def
      ex_fwd_def Let_def)

text \<open>
  C5. A training step that completes has made its calls in this order: the forward pass,
  which returned a total loss, then the optimizer step, the scheduler step, the zeroing
  of the gradients and the backward pass on that loss, and after them at most the
  periodic checkpoint. In the trace of every run of the loop, whether it completes or
  raises, the four optimisation calls occur only in this order and directly after a
  training forward pass: no backward pass comes before the optimizer step of its
  training step.
\<close>

theorem optimizer_steps_before_backward:
  "(train_step cf fwd epoch train_num_batch train_batch_ind batch st = (None, st') \<longrightarrow>
      (\<exists>total_loss log_console ck.
         fwd batch = Inr total_loss \<and>
         trace st' = trace st @
           [Forward False train_batch_ind batch log_console,
            OptStep, SchedStep, ZeroGrad, Backward total_loss] @ ck \<and>
         (ck = [] \<or>
          ck = [SaveCheckpoint [PointEncoder] [''pointencoder''] epoch True
                  [''pointencoder'']]))) \<and>
   steps_in_order fwd
     (snd (train_loop cf fwd train_num_batch valdt_num_batch train_dataloader valdt_dataloader))"
proof (intro conjI impI)
  assume "train_step cf fwd epoch train_num_batch train_batch_ind batch st = (None, st')"
  then show "\<exists>total_loss log_console ck.
         fwd batch = Inr total_loss \<and>
         trace st' = trace st @
           [Forward False train_batch_ind batch log_console,
            OptStep, SchedStep, ZeroGrad, Backward total_loss] @ ck \<and>
         (ck = [] \<or>
          ck = [SaveCheckpoint [PointEncoder] [''pointencoder''] epoch True
                  [''pointencoder'']])"
    by (auto simp: train_step_def Let_def periodic_checkpoint_def split: if_splits sum.splits)
next
  show "steps_in_order fwd
     (snd (train_loop cf fwd train_num_batch valdt_num_batch train_dataloader valdt_dataloader))"
    by (rule train_loop_phases)
qed

theorem optimizer_steps_before_backward_witness:
  "train_step ex_conf ex_fwd 0 2 0 10 initial_state =
     (None, \<lparr>trace = [Forward False 0 10 True, OptStep, SchedStep, ZeroGrad, Backward (Fin 1),
           SaveCheckpoint [PointEncoder] [''pointencoder''] 0 True [''pointencoder'']],
        last_checkpoint_step = Some 0,
        last_train_console_log_step = Some 0, last_valdt_console_log_step = None,
        train_fraction_done = 1 / 2, valdt_fraction_done = 0, valdt_batch_ind = - 1\<rparr>) \<and>
   (\<exists>total_loss log_console ck.
      ex_fwd 10 = Inr total_loss \<and>
      [Forward False 0 10 True, OptStep, SchedStep, ZeroGrad, Backward (Fin 1),
       SaveCheckpoint [PointEncoder] [''pointencoder''] 0 True [''pointencoder'']] =
        [Forward False 0 10 log_console, OptStep, SchedStep, ZeroGrad, Backward total_loss] @ ck) \<and>
   train_loop ex_conf ex_fwd 2 3 (\<lambda>epoch. ex_train_batches) (\<lambda>epoch. ex_valdt_batches) =
     (None, ex_run_trace) \<and>
   steps_in_order ex_fwd ex_run_trace"
proof -
  note inst = optimizer_steps_before_backward[of ex_conf ex_fwd 0 2 0 10 initial_state _ 3
      "\<lambda>epoch. ex_train_batches" "\<lambda>epoch. ex_valdt_batches"]
  from inst have "steps_in_order ex_fwd (snd (train_loop ex_conf ex_fwd 2 3
      (\<lambda>epoch. ex_train_batches) (\<lambda>epoch. ex_valdt_batches)))"
    by blast
  then have order: "steps_in_order ex_fwd ex_run_trace" by (simp add: ex_loop)
  from inst ex_step have "\<exists>total_loss log_console ck.
      ex_fwd 10 = Inr total_loss \<and>
      [Forward False 0 10 True, OptStep, SchedStep, ZeroGrad, Backward (Fin 1),
       SaveCheckpoint [PointEncoder] [''pointencoder''] 0 True [''pointencoder'']] =
        [Forward False 0 10 log_console, OptStep, SchedStep, ZeroGrad, Backward total_loss] @ ck"
    by (fastforce simp: initial_state_def)
  with order ex_step ex_loop show ?thesis by blast
qed


text \<open>
  C4, evaluated on the example run of two epochs: the last event of the run is the final
  checkpoint, which saves the structure encoder and the decoder with the optimizer state
  under the name \<^verbatim>\<open>pointencoder\<close> and without the epoch prefix. The point encoder is
  not among the models saved.
\<close>

theorem final_checkpoint_misses_point_encoder:
  "final_checkpoint ex_conf =
     Inr (SaveCheckpoint [Encoder, Decoder] [''encoder'', ''decoder''] 1 False [''pointencoder'']) \<and>
   train_loop ex_conf ex_fwd 2 3 (\<lambda>epoch. ex_train_batches) (\<lambda>epoch. ex_valdt_batches) =
     (None, ex_run_trace) \<and>
   last ex_run_trace =
     SaveCheckpoint [Encoder, Decoder] [''encoder'', ''decoder''] 1 False [''pointencoder'']"
  using ex_loop by (simp add: final_checkpoint_def ex_conf_def ex_run_trace_def)

end
